theory Spec2Isabelle
  imports Main
begin

section \<open>Values, classes, documents and the backend state\<close>

text \<open>
  The module under verification is \<^verbatim>\<open>blitzdb/backends/base.py\<close>: the class registry of
  \<^verbatim>\<open>Backend\<close> (\<^verbatim>\<open>register\<close>, \<^verbatim>\<open>autoregister\<close>, \<^verbatim>\<open>get_collection_for_cls\<close>,
  \<^verbatim>\<open>create_instance\<close>) and the two recursive converters \<^verbatim>\<open>serialize\<close> and
  \<^verbatim>\<open>deserialize\<close>.

  Python values are a tree. The two mutable containers (\<^verbatim>\<open>dict\<close>, \<^verbatim>\<open>list\<close>) carry the
  identity of the object (an address), so that "the same object" and "a copy" are
  different values. Documents are mutable objects that the code updates in place
  (\<^verbatim>\<open>obj.save\<close>, \<^verbatim>\<open>output_obj.pk = ...\<close>); they live in a store and a value refers to one by
  its identity. Dictionary keys are strings or integers.
\<close>

datatype pkey = KStr string | KInt int

datatype val =
    VNone
  | VBool bool
  | VInt int
  | VStr string
  | VDict nat "(pkey \<times> val) list"
  | VList nat "val list"
  | VTuple "val list"
  | VDoc nat

text \<open>
  A parameter dictionary of the registry (\<^verbatim>\<open>self.classes[cls]\<close>) and the user attributes
  of a class's \<^verbatim>\<open>Meta\<close>. The code reads the keys \<^verbatim>\<open>collection\<close>, \<^verbatim>\<open>constructor\<close> and
  \<^verbatim>\<open>dbref_includes\<close>; every other entry is kept in \<open>extra\<close>. A constructor is a callable
  object, referred to by its identity.
\<close>

record params =
  collection :: "string option"
  constructor :: "nat option"
  dbref_includes :: "string list option"
  extra :: "(string \<times> val) list"

text \<open>
  A class object: its identity, \<^verbatim>\<open>__name__\<close>, whether it is a subclass of \<^verbatim>\<open>Document\<close>,
  its \<^verbatim>\<open>Meta\<close> (absent when \<^verbatim>\<open>hasattr(cls, 'Meta')\<close> is false) and the result of
  \<^verbatim>\<open>get_pk_name()\<close>.
\<close>

record pyclass =
  cls_id :: nat
  cls_name :: string
  is_document :: bool
  meta :: "params option"
  pk_name :: string

text \<open>
  The exceptions that the module raises or lets through. \<^verbatim>\<open>ValueError\<close> is the
  "Documents are not allowed in queries!" error of \<^verbatim>\<open>serialize\<close>. Every document class has
  an exception class \<^verbatim>\<open>DoesNotExist\<close> of its own (\<^verbatim>\<open>obj.DoesNotExist\<close> in line 169 is the one
  of the class of \<^verbatim>\<open>obj\<close>), so the error carries the class it belongs to.
\<close>

datatype error =
    ValueError
  | KeyError
  | TypeError
  | AttributeError
  | DoesNotExist pyclass
  | OtherError string

text \<open>
  Modelled from the spec: the document class \<^verbatim>\<open>blitzdb.document.Document\<close> is not part of
  the sources. The spec (section 6) lists what the core reads of an instance: \<^verbatim>\<open>pk\<close>
  (nullable), \<^verbatim>\<open>attributes\<close>, \<^verbatim>\<open>lazy_attributes\<close>, \<^verbatim>\<open>_lazy\<close> and \<^verbatim>\<open>embed\<close>; \<open>doc_cls\<close> is
  \<^verbatim>\<open>obj.__class__\<close>.
\<close>

record doc =
  doc_cls :: pyclass
  pk :: val
  attributes :: val
  lazy_attributes :: val
  lazy :: bool
  embed :: bool

text \<open>
  The state: the four fields of a \<^verbatim>\<open>Backend\<close> (\<^verbatim>\<open>classes\<close>, \<^verbatim>\<open>collections\<close>,
  \<^verbatim>\<open>_autoload_embedded\<close>, \<^verbatim>\<open>_allow_documents_in_query\<close>), the store of document objects
  and the next unused identities of documents and of containers.
\<close>

record state =
  classes :: "pyclass \<rightharpoonup> params"
  collections :: "string \<rightharpoonup> pyclass"
  autoload_embedded :: bool
  allow_documents_in_query :: bool
  docs :: "nat \<Rightarrow> doc"
  next_doc :: nat
  next_addr :: nat

type_synonym 'a result = "(error + 'a) \<times> state"

section \<open>The class registry\<close>

definition lower_char :: "char \<Rightarrow> char" where
  "lower_char c =
     (let n = (of_char c :: nat) in if 65 \<le> n \<and> n \<le> 90 then char_of (n + 32) else c)"

definition lower :: "string \<Rightarrow> string" where
  "lower s = map lower_char s"

definition empty_params :: params where
  "empty_params = \<lparr>collection = None, constructor = None, dbref_includes = None, extra = []\<rparr>"

text \<open>
  The first part of \<^verbatim>\<open>register\<close> (lines 82-89): the collection name, from the parameters,
  else from \<^verbatim>\<open>cls.Meta.collection\<close>, else the lower-cased class name. \<^verbatim>\<open>cls.Meta\<close> raises
  \<^verbatim>\<open>AttributeError\<close> when the class has no \<^verbatim>\<open>Meta\<close>.
\<close>

definition collection_name_for :: "pyclass \<Rightarrow> params \<Rightarrow> error + string" where
  "collection_name_for cls parameters =
     (case collection parameters of
        Some c \<Rightarrow> Inr c
      | None \<Rightarrow>
          (case meta cls of
             None \<Rightarrow> Inl AttributeError
           | Some m \<Rightarrow>
               (case collection m of
                  Some c \<Rightarrow> Inr c
                | None \<Rightarrow> Inr (lower (cls_name cls)))))"

text \<open>
  Lines 91-97: every entry of \<^verbatim>\<open>self.classes\<close> whose \<^verbatim>\<open>collection\<close> is the new name is
  deleted.
\<close>

definition delete_colliding :: "string \<Rightarrow> (pyclass \<rightharpoonup> params) \<Rightarrow> (pyclass \<rightharpoonup> params)" where
  "delete_colliding collection_name cs =
     (\<lambda>new_cls. case cs new_cls of
        None \<Rightarrow> None
      | Some new_params \<Rightarrow>
          if collection new_params = Some collection_name then None else Some new_params)"

definition register :: "pyclass \<Rightarrow> params option \<Rightarrow> state \<Rightarrow> unit result" where
  "register cls parameters0 st =
     (let parameters = (case parameters0 of None \<Rightarrow> empty_params | Some p \<Rightarrow> p) in
      case collection_name_for cls parameters of
        Inl e \<Rightarrow> (Inl e, st)
      | Inr collection_name \<Rightarrow>
          (Inr (),
           st\<lparr>classes := (delete_colliding collection_name (classes st))
                  (cls \<mapsto> parameters\<lparr>collection := Some collection_name\<rparr>),
              collections := (collections st)(collection_name \<mapsto> cls)\<rparr>))"

definition get_meta_attributes :: "pyclass \<Rightarrow> params" where
  "get_meta_attributes cls = (case meta cls of Some m \<Rightarrow> m | None \<Rightarrow> empty_params)"

definition autoregister :: "pyclass \<Rightarrow> state \<Rightarrow> unit result" where
  "autoregister cls st = register cls (Some (get_meta_attributes cls)) st"

text \<open>\<^verbatim>\<open>get_collection_for_cls\<close> (lines 281-287).\<close>

definition get_collection_for_cls :: "pyclass \<Rightarrow> state \<Rightarrow> string result" where
  "get_collection_for_cls cls st =
     (case
        (if classes st cls = None then
           (if is_document cls then autoregister cls st else (Inl AttributeError, st))
         else (Inr (), st))
      of
        (Inl e, st1) \<Rightarrow> (Inl e, st1)
      | (Inr u, st1) \<Rightarrow>
          (case classes st1 cls of
             None \<Rightarrow> (Inl KeyError, st1)
           | Some p \<Rightarrow>
               (case collection p of
                  None \<Rightarrow> (Inl KeyError, st1)
                | Some c \<Rightarrow> (Inr c, st1))))"

text \<open>
  A backend right after \<^verbatim>\<open>__init__\<close> with \<^verbatim>\<open>autodiscover_classes=False\<close>; with autodiscovery
  the constructor goes on with one \<^verbatim>\<open>register\<close> call per discovered class.
\<close>

definition init_state :: "bool \<Rightarrow> bool \<Rightarrow> (nat \<Rightarrow> doc) \<Rightarrow> nat \<Rightarrow> nat \<Rightarrow> state" where
  "init_state autoload allow ds nd na =
     \<lparr>classes = Map.empty, collections = Map.empty, autoload_embedded = autoload,
      allow_documents_in_query = allow, docs = ds, next_doc = nd, next_addr = na\<rparr>"

datatype reg_call = Register pyclass "params option" | Autoregister pyclass

fun reg_step :: "reg_call \<Rightarrow> state \<Rightarrow> state" where
  "reg_step (Register cls ps) st = snd (register cls ps st)"
| "reg_step (Autoregister cls) st = snd (autoregister cls st)"

fun reg_run :: "reg_call list \<Rightarrow> state \<Rightarrow> state" where
  "reg_run [] st = st"
| "reg_run (c # cs) st = reg_run cs (reg_step c st)"

text \<open>
  The two directions of the consistency that the spec calls an invariant. \<open>registry_resolves\<close>:
  every registered class has a collection name and the reverse index maps that name back to
  the class. \<open>reverse_index_registered\<close>: every entry of the reverse index is a registered
  class under that name.
\<close>

definition registry_resolves :: "state \<Rightarrow> bool" where
  "registry_resolves st \<longleftrightarrow>
     (\<forall>t p. classes st t = Some p \<longrightarrow>
        (\<exists>c. collection p = Some c \<and> collections st c = Some t))"

definition reverse_index_registered :: "state \<Rightarrow> bool" where
  "reverse_index_registered st \<longleftrightarrow>
     (\<forall>c t. collections st c = Some t \<longrightarrow>
        (\<exists>p. classes st t = Some p \<and> collection p = Some c))"

section \<open>The external document capability\<close>

text \<open>
  \<^verbatim>\<open>serialize\<close> and \<^verbatim>\<open>deserialize\<close> call methods of \<^verbatim>\<open>Document\<close> and user callables that
  are not part of the module. They are parameters of the model; each takes the state and
  returns the state it leaves, also when it raises:
  \<^item> \<open>eager_attributes\<close> is \<^verbatim>\<open>obj.eager.attributes\<close> (the fetch of a lazy instance);
  \<^item> \<open>doc_save\<close> is \<^verbatim>\<open>obj.save(self)\<close>;
  \<^item> \<open>doc_serialize\<close> is \<^verbatim>\<open>obj.serialize(embed=True)\<close>;
  \<^item> \<open>doc_deepcopy\<close> is what \<^verbatim>\<open>copy.deepcopy\<close> does at a document;
  \<^item> \<open>call_constructor\<close> calls a registered \<^verbatim>\<open>constructor\<close> with \<^verbatim>\<open>(attributes, lazy=lazy)\<close>;
  \<^item> \<open>doc_hashable\<close> says whether a document instance can be hashed.
\<close>

record ext =
  eager_attributes :: "nat \<Rightarrow> state \<Rightarrow> val result"
  doc_save :: "nat \<Rightarrow> state \<Rightarrow> unit result"
  doc_serialize :: "nat \<Rightarrow> state \<Rightarrow> val result"
  doc_deepcopy :: "nat \<Rightarrow> state \<Rightarrow> val result"
  call_constructor :: "nat \<Rightarrow> val \<Rightarrow> bool \<Rightarrow> state \<Rightarrow> val result"
  doc_hashable :: bool

section \<open>Dictionaries, strings and copies\<close>

definition alloc :: "state \<Rightarrow> nat \<times> state" where
  "alloc st = (next_addr st, st\<lparr>next_addr := Suc (next_addr st)\<rparr>)"

text \<open>\<^verbatim>\<open>d[k] = v\<close>, \<^verbatim>\<open>k in d\<close>, \<^verbatim>\<open>d[k]\<close> and \<^verbatim>\<open>del d[k]\<close> on the items of a dictionary.\<close>

fun dict_set :: "(pkey \<times> val) list \<Rightarrow> pkey \<Rightarrow> val \<Rightarrow> (pkey \<times> val) list" where
  "dict_set [] k v = [(k, v)]"
| "dict_set ((k', v') # kvs) k v =
     (if k' = k then (k', v) # kvs else (k', v') # dict_set kvs k v)"

definition dict_has :: "(pkey \<times> val) list \<Rightarrow> pkey \<Rightarrow> bool" where
  "dict_has kvs k \<longleftrightarrow> k \<in> set (map fst kvs)"

definition dict_get :: "(pkey \<times> val) list \<Rightarrow> pkey \<Rightarrow> error + val" where
  "dict_get kvs k = (case map_of kvs k of None \<Rightarrow> Inl KeyError | Some v \<Rightarrow> Inr v)"

definition dict_del :: "(pkey \<times> val) list \<Rightarrow> pkey \<Rightarrow> (pkey \<times> val) list" where
  "dict_del kvs k = filter (\<lambda>kv. fst kv \<noteq> k) kvs"

text \<open>\<^verbatim>\<open>str(key)\<close> for the two kinds of key.\<close>

definition digit_char :: "nat \<Rightarrow> char" where
  "digit_char n = char_of (48 + n)"

function str_of_nat :: "nat \<Rightarrow> string" where
  "str_of_nat n =
     (if n < 10 then [digit_char n] else str_of_nat (n div 10) @ [digit_char (n mod 10)])"
  by pat_completeness auto
termination
  by (relation "measure id") auto

definition str_of_int :: "int \<Rightarrow> string" where
  "str_of_int n = (if n < 0 then CHR ''-'' # str_of_nat (nat (- n)) else str_of_nat (nat n))"

fun str_key :: "pkey \<Rightarrow> pkey" where
  "str_key (KStr s) = KStr s"
| "str_key (KInt n) = KStr (str_of_int n)"

text \<open>\<^verbatim>\<open>key.split(".")\<close> and \<^verbatim>\<open>include_key.replace(".", "_")\<close>.\<close>

fun split_dot :: "string \<Rightarrow> string list" where
  "split_dot [] = [[]]"
| "split_dot (c # cs) =
     (if c = CHR ''.'' then [] # split_dot cs
      else (case split_dot cs of [] \<Rightarrow> [[c]] | f # fs \<Rightarrow> (c # f) # fs))"

definition replace_dots :: "string \<Rightarrow> string" where
  "replace_dots s = map (\<lambda>c. if c = CHR ''.'' then CHR ''_'' else c) s"

text \<open>
  \<^verbatim>\<open>copy.deepcopy\<close>: every container of the copy is a new object. A dictionary and a list
  are created before their contents are copied. The memo of \<^verbatim>\<open>deepcopy\<close> (one copy for an
  object met twice) is not modelled: an object that occurs twice is copied twice.
\<close>

fun deepcopy :: "ext \<Rightarrow> val \<Rightarrow> state \<Rightarrow> val result"
and deepcopy_items :: "ext \<Rightarrow> (pkey \<times> val) list \<Rightarrow> state \<Rightarrow> ((pkey \<times> val) list) result"
and deepcopy_seq :: "ext \<Rightarrow> val list \<Rightarrow> state \<Rightarrow> (val list) result"
where
  "deepcopy x (VDict a kvs) st =
     (case alloc st of (a', st1) \<Rightarrow>
        (case deepcopy_items x kvs st1 of
           (Inl e, st2) \<Rightarrow> (Inl e, st2)
         | (Inr kvs', st2) \<Rightarrow> (Inr (VDict a' kvs'), st2)))"
| "deepcopy x (VList a vs) st =
     (case alloc st of (a', st1) \<Rightarrow>
        (case deepcopy_seq x vs st1 of
           (Inl e, st2) \<Rightarrow> (Inl e, st2)
         | (Inr vs', st2) \<Rightarrow> (Inr (VList a' vs'), st2)))"
| "deepcopy x (VTuple vs) st =
     (case deepcopy_seq x vs st of
        (Inl e, st1) \<Rightarrow> (Inl e, st1)
      | (Inr vs', st1) \<Rightarrow> (Inr (VTuple vs'), st1))"
| "deepcopy x (VDoc i) st = doc_deepcopy x i st"
| "deepcopy x VNone st = (Inr VNone, st)"
| "deepcopy x (VBool b) st = (Inr (VBool b), st)"
| "deepcopy x (VInt n) st = (Inr (VInt n), st)"
| "deepcopy x (VStr s) st = (Inr (VStr s), st)"
| "deepcopy_items x [] st = (Inr [], st)"
| "deepcopy_items x ((k, v) # kvs) st =
     (case deepcopy x v st of
        (Inl e, st1) \<Rightarrow> (Inl e, st1)
      | (Inr v', st1) \<Rightarrow>
          (case deepcopy_items x kvs st1 of
             (Inl e, st2) \<Rightarrow> (Inl e, st2)
           | (Inr kvs', st2) \<Rightarrow> (Inr ((k, v') # kvs'), st2)))"
| "deepcopy_seq x [] st = (Inr [], st)"
| "deepcopy_seq x (v # vs) st =
     (case deepcopy x v st of
        (Inl e, st1) \<Rightarrow> (Inl e, st1)
      | (Inr v', st1) \<Rightarrow>
          (case deepcopy_seq x vs st1 of
             (Inl e, st2) \<Rightarrow> (Inl e, st2)
           | (Inr vs', st2) \<Rightarrow> (Inr (v' # vs'), st2)))"

section \<open>serialize\<close>

text \<open>
  Modelled from the spec: \<^verbatim>\<open>Document.__getitem__\<close> is not part of the sources. The spec
  (section 4.2) resolves a path "against the instance's attributes", so subscripting a
  document looks the key up in its attribute mapping. The first argument is the store of
  documents.

  The other cases are \<^verbatim>\<open>current_dict[key_fragment]\<close> of \<^verbatim>\<open>get_value\<close> (line 147) with a
  string subscript: a dictionary raises \<^verbatim>\<open>KeyError\<close> for a missing key; a list, tuple,
  string, number or \<^verbatim>\<open>None\<close> raises \<^verbatim>\<open>TypeError\<close>.
\<close>

fun subscript :: "(nat \<Rightarrow> doc) \<Rightarrow> val \<Rightarrow> string \<Rightarrow> error + val" where
  "subscript ds (VDict a kvs) k = dict_get kvs (KStr k)"
| "subscript ds (VDoc i) k =
     (case attributes (ds i) of
        VDict a kvs \<Rightarrow> dict_get kvs (KStr k)
      | _ \<Rightarrow> Inl TypeError)"
| "subscript ds v k = Inl TypeError"

text \<open>The loop of \<^verbatim>\<open>get_value\<close> (lines 145-148) over the fragments of the key.\<close>

fun get_value_loop :: "(nat \<Rightarrow> doc) \<Rightarrow> val \<Rightarrow> string list \<Rightarrow> error + val" where
  "get_value_loop ds current_dict [] = Inr current_dict"
| "get_value_loop ds current_dict (key_fragment # rest) =
     (case subscript ds current_dict key_fragment of
        Inl e \<Rightarrow> Inl e
      | Inr v \<Rightarrow> get_value_loop ds v rest)"

definition get_value :: "(nat \<Rightarrow> doc) \<Rightarrow> val \<Rightarrow> string \<Rightarrow> error + val" where
  "get_value ds obj key = get_value_loop ds obj (split_dot key)"

text \<open>
  The loop over \<^verbatim>\<open>obj.Meta.dbref_includes\<close> (lines 190-195): only \<^verbatim>\<open>KeyError\<close> is caught.
\<close>

fun add_includes ::
  "(nat \<Rightarrow> doc) \<Rightarrow> val \<Rightarrow> string list \<Rightarrow> (pkey \<times> val) list \<Rightarrow> error + (pkey \<times> val) list" where
  "add_includes ds obj [] output_obj = Inr output_obj"
| "add_includes ds obj (include_key # rest) output_obj =
     (case get_value ds obj include_key of
        Inl e \<Rightarrow> (if e = KeyError then add_includes ds obj rest output_obj else Inl e)
      | Inr v \<Rightarrow>
          add_includes ds obj rest (dict_set output_obj (KStr (replace_dots include_key)) v))"

text \<open>
  \<^verbatim>\<open>self.classes[obj.__class__]['collection']\<close>: both subscripts raise \<^verbatim>\<open>KeyError\<close> when the
  key is missing.
\<close>

definition registered_collection :: "state \<Rightarrow> pyclass \<Rightarrow> error + string" where
  "registered_collection st cls =
     (case classes st cls of
        None \<Rightarrow> Inl KeyError
      | Some p \<Rightarrow> (case collection p of None \<Rightarrow> Inl KeyError | Some c \<Rightarrow> Inr c))"

text \<open>
  Lines 177-183, the stub of a lazy instance. \<^verbatim>\<open>lazy_attributes\<close> is a mapping; the
  dictionary operations on anything else raise \<^verbatim>\<open>TypeError\<close>.
\<close>

definition lazy_stub :: "ext \<Rightarrow> nat \<Rightarrow> state \<Rightarrow> val result" where
  "lazy_stub x i st =
     (case deepcopy x (lazy_attributes (docs st i)) st of
        (Inl e, st1) \<Rightarrow> (Inl e, st1)
      | (Inr (VDict a kvs), st1) \<Rightarrow>
          (let d = docs st1 i;
               k = KStr (pk_name (doc_cls d));
               kvs1 = (if dict_has kvs k then dict_del kvs k else kvs);
               kvs2 = dict_set kvs1 (KStr ''pk'') (pk d)
           in case registered_collection st1 (doc_cls d) of
                Inl e \<Rightarrow> (Inl e, st1)
              | Inr c \<Rightarrow> (Inr (VDict a (dict_set kvs2 (KStr ''__collection__'') (VStr c))), st1))
      | (Inr _, st1) \<Rightarrow> (Inl TypeError, st1))"

text \<open>
  The paths of line 189: \<^verbatim>\<open>obj.Meta.dbref_includes\<close> when the instance has a \<^verbatim>\<open>Meta\<close> that
  has the attribute and it is not empty, no path at all otherwise.
\<close>

definition includes_of :: "pyclass \<Rightarrow> string list" where
  "includes_of cls =
     (case meta cls of
        None \<Rightarrow> []
      | Some m \<Rightarrow> (case dbref_includes m of None \<Rightarrow> [] | Some ks \<Rightarrow> ks))"

text \<open>Lines 185-195, the stub of an instance that is not lazy.\<close>

definition eager_stub :: "bool \<Rightarrow> nat \<Rightarrow> state \<Rightarrow> val result" where
  "eager_stub for_query i st =
     (let d = docs st i in
      if for_query \<and> \<not> allow_documents_in_query st then (Inl ValueError, st)
      else
        (case registered_collection st (doc_cls d) of
           Inl e \<Rightarrow> (Inl e, st)
         | Inr c \<Rightarrow>
             (case alloc st of (a, st1) \<Rightarrow>
                (let output_obj = [(KStr ''pk'', pk d), (KStr ''__collection__'', VStr c)]
                 in case add_includes (docs st1) (VDoc i) (includes_of (doc_cls d)) output_obj of
                      Inl e \<Rightarrow> (Inl e, st1)
                    | Inr out \<Rightarrow> (Inr (VDict a out), st1)))))"

text \<open>Lines 174-175: \<^verbatim>\<open>if obj.pk == None and autosave: obj.save(self)\<close>.\<close>

definition autosave_step :: "ext \<Rightarrow> bool \<Rightarrow> nat \<Rightarrow> state \<Rightarrow> unit result" where
  "autosave_step x autosave i st =
     (if pk (docs st i) = VNone \<and> autosave then doc_save x i st else (Inr (), st))"

text \<open>Lines 174-195, the reference case: autosave, then one of the two stubs.\<close>

definition serialize_reference :: "ext \<Rightarrow> bool \<Rightarrow> bool \<Rightarrow> nat \<Rightarrow> state \<Rightarrow> val result" where
  "serialize_reference x autosave for_query i st =
     (case autosave_step x autosave i st of
        (Inl e, st1) \<Rightarrow> (Inl e, st1)
      | (Inr u, st1) \<Rightarrow>
          (if lazy (docs st1 i) then lazy_stub x i st1 else eager_stub for_query i st1))"

text \<open>
  \<^verbatim>\<open>serialize\<close> without encoders (lines 156-200). The recursive calls of the source go
  through \<^verbatim>\<open>serialize_with_opts\<close>, which passes \<^verbatim>\<open>convert_keys_to_str\<close>, \<^verbatim>\<open>autosave\<close>,
  \<^verbatim>\<open>for_query\<close> and \<^verbatim>\<open>embed_level\<close> but not \<^verbatim>\<open>encoders\<close>, so every recursive call runs with
  \<^verbatim>\<open>encoders=None\<close>. The \<^verbatim>\<open>except obj.DoesNotExist\<close> of line 169 covers the whole of line
  168, the fetch and the serialization of what it returned, and it catches the
  \<^verbatim>\<open>DoesNotExist\<close> of the class of \<^verbatim>\<open>obj\<close> only.
\<close>

fun serialize_rec :: "ext \<Rightarrow> bool \<Rightarrow> bool \<Rightarrow> bool \<Rightarrow> int \<Rightarrow> val \<Rightarrow> state \<Rightarrow> val result"
and serialize_items ::
  "ext \<Rightarrow> bool \<Rightarrow> bool \<Rightarrow> bool \<Rightarrow> int \<Rightarrow> (pkey \<times> val) list \<Rightarrow> (pkey \<times> val) list \<Rightarrow> state
     \<Rightarrow> ((pkey \<times> val) list) result"
and serialize_seq ::
  "ext \<Rightarrow> bool \<Rightarrow> bool \<Rightarrow> bool \<Rightarrow> int \<Rightarrow> val list \<Rightarrow> state \<Rightarrow> (val list) result"
where
  "serialize_rec x convert_keys_to_str autosave for_query embed_level (VDict a kvs) st =
     (case alloc st of (a', st1) \<Rightarrow>
        (case serialize_items x convert_keys_to_str autosave for_query embed_level kvs [] st1 of
           (Inl e, st2) \<Rightarrow> (Inl e, st2)
         | (Inr out, st2) \<Rightarrow> (Inr (VDict a' out), st2)))"
| "serialize_rec x convert_keys_to_str autosave for_query embed_level (VList a vs) st =
     (case serialize_seq x convert_keys_to_str autosave for_query embed_level vs st of
        (Inl e, st1) \<Rightarrow> (Inl e, st1)
      | (Inr out, st1) \<Rightarrow> (case alloc st1 of (a', st2) \<Rightarrow> (Inr (VList a' out), st2)))"
| "serialize_rec x convert_keys_to_str autosave for_query embed_level (VTuple vs) st =
     (case serialize_seq x convert_keys_to_str autosave for_query embed_level vs st of
        (Inl e, st1) \<Rightarrow> (Inl e, st1)
      | (Inr out, st1) \<Rightarrow> (Inr (VTuple out), st1))"
| "serialize_rec x convert_keys_to_str autosave for_query embed_level (VDoc i) st =
     (case get_collection_for_cls (doc_cls (docs st i)) st of
        (Inl e, st1) \<Rightarrow> (Inl e, st1)
      | (Inr c, st1) \<Rightarrow>
          (if embed_level > 0 then
             (case eager_attributes x i st1 of
                (Inl e, st2) \<Rightarrow>
                  (if e = DoesNotExist (doc_cls (docs st2 i)) then
                     serialize_rec x convert_keys_to_str autosave for_query (embed_level - 1)
                       (attributes (docs st2 i)) st2
                   else (Inl e, st2))
              | (Inr attrs, st2) \<Rightarrow>
                  (case serialize_rec x convert_keys_to_str autosave for_query (embed_level - 1)
                          attrs st2 of
                     (Inl e, st3) \<Rightarrow>
                       (if e = DoesNotExist (doc_cls (docs st3 i)) then
                          serialize_rec x convert_keys_to_str autosave for_query (embed_level - 1)
                            (attributes (docs st3 i)) st3
                        else (Inl e, st3))
                   | (Inr out, st3) \<Rightarrow> (Inr out, st3)))
           else if embed (docs st1 i) then doc_serialize x i st1
           else serialize_reference x autosave for_query i st1))"
| "serialize_rec x convert_keys_to_str autosave for_query embed_level VNone st = (Inr VNone, st)"
| "serialize_rec x convert_keys_to_str autosave for_query embed_level (VBool b) st =
     (Inr (VBool b), st)"
| "serialize_rec x convert_keys_to_str autosave for_query embed_level (VInt n) st =
     (Inr (VInt n), st)"
| "serialize_rec x convert_keys_to_str autosave for_query embed_level (VStr s) st =
     (Inr (VStr s), st)"
| "serialize_items x convert_keys_to_str autosave for_query embed_level [] output_obj st =
     (Inr output_obj, st)"
| "serialize_items x convert_keys_to_str autosave for_query embed_level ((k, v) # kvs)
       output_obj st =
     (case serialize_rec x convert_keys_to_str autosave for_query embed_level v st of
        (Inl e, st1) \<Rightarrow> (Inl e, st1)
      | (Inr v', st1) \<Rightarrow>
          serialize_items x convert_keys_to_str autosave for_query embed_level kvs
            (dict_set output_obj (if convert_keys_to_str then str_key k else k) v') st1)"
| "serialize_seq x convert_keys_to_str autosave for_query embed_level [] st = (Inr [], st)"
| "serialize_seq x convert_keys_to_str autosave for_query embed_level (v # vs) st =
     (case serialize_rec x convert_keys_to_str autosave for_query embed_level v st of
        (Inl e, st1) \<Rightarrow> (Inl e, st1)
      | (Inr v', st1) \<Rightarrow>
          (case serialize_seq x convert_keys_to_str autosave for_query embed_level vs st1 of
             (Inl e, st2) \<Rightarrow> (Inl e, st2)
           | (Inr vs', st2) \<Rightarrow> (Inr (v' # vs'), st2)))"

text \<open>
  The loop over the encoders (lines 152-154) and the one over the decoders (lines
  213-215). Matchers and transforms are pure functions on values.
\<close>

fun apply_encoders :: "((val \<Rightarrow> bool) \<times> (val \<Rightarrow> val)) list \<Rightarrow> val \<Rightarrow> val" where
  "apply_encoders [] obj = obj"
| "apply_encoders ((matcher, encoder) # rest) obj =
     apply_encoders rest (if matcher obj then encoder obj else obj)"

text \<open>
  \<^verbatim>\<open>serialize(obj, convert_keys_to_str, embed_level, encoders, autosave, for_query)\<close>.
  \<^verbatim>\<open>if encoders:\<close> is false for \<^verbatim>\<open>None\<close> and for the empty list.
\<close>

definition serialize ::
  "ext \<Rightarrow> val \<Rightarrow> bool \<Rightarrow> int \<Rightarrow> ((val \<Rightarrow> bool) \<times> (val \<Rightarrow> val)) list option \<Rightarrow> bool \<Rightarrow> bool
     \<Rightarrow> state \<Rightarrow> val result" where
  "serialize x obj convert_keys_to_str embed_level encoders autosave for_query st =
     serialize_rec x convert_keys_to_str autosave for_query embed_level
       (case encoders of None \<Rightarrow> obj | Some es \<Rightarrow> apply_encoders es obj) st"

section \<open>create_instance and deserialize\<close>




text \<open>
  \<^verbatim>\<open>hash(v)\<close> succeeds: \<^verbatim>\<open>obj['__collection__'] in self.collections\<close> (line 223) hashes the
  value and raises \<^verbatim>\<open>TypeError\<close> for a dictionary, a list, or a tuple that contains one.
\<close>

fun hashable :: "ext \<Rightarrow> val \<Rightarrow> bool" where
  "hashable x (VDict a kvs) = False"
| "hashable x (VList a vs) = False"
| "hashable x (VTuple vs) = (\<forall>v \<in> set vs. hashable x v)"
| "hashable x (VDoc i) = doc_hashable x"
| "hashable x v = True"

definition pk_field_of :: "(pkey \<times> val) list \<Rightarrow> string option" where
  "pk_field_of kvs =
     (if dict_has kvs (KStr ''__pk__'') then Some ''__pk__''
      else if dict_has kvs (KStr ''pk'') then Some ''pk''
      else None)"

text \<open>
  The test of line 223, \<^verbatim>\<open>'__collection__' in obj and obj['__collection__'] in
  self.collections and pk_field\<close>, evaluated from left to right: the result is the
  collection name and the primary-key field when the mapping is a reference, \<open>None\<close> when it
  is not.
\<close>

definition reference_shape ::
  "ext \<Rightarrow> state \<Rightarrow> (pkey \<times> val) list \<Rightarrow> error + (string \<times> string) option" where
  "reference_shape x st kvs =
     (case map_of kvs (KStr ''__collection__'') of
        None \<Rightarrow> Inr None
      | Some v \<Rightarrow>
          (if \<not> hashable x v then Inl TypeError
           else
             (case v of
                VStr name \<Rightarrow>
                  (if collections st name \<noteq> None then
                     (case pk_field_of kvs of
                        None \<Rightarrow> Inr None
                      | Some f \<Rightarrow> Inr (Some (name, f)))
                   else Inr None)
              | _ \<Rightarrow> Inr None)))"






section \<open>Sample classes, documents and states\<close>

text \<open>Concrete inputs on which the theorems below are instantiated.\<close>

definition cls_Author :: pyclass where
  "cls_Author =
     \<lparr>cls_id = 0, cls_name = ''Author'', is_document = True, meta = Some empty_params,
      pk_name = ''pk''\<rparr>"

definition cls_Book :: pyclass where
  "cls_Book =
     \<lparr>cls_id = 1, cls_name = ''Book'', is_document = True, meta = Some empty_params,
      pk_name = ''pk''\<rparr>"

definition in_collection :: "string \<Rightarrow> params option" where
  "in_collection c = Some (empty_params\<lparr>collection := Some c\<rparr>)"

definition blank_doc :: doc where
  "blank_doc =
     \<lparr>doc_cls = cls_Book, pk = VNone, attributes = VDict 0 [], lazy_attributes = VDict 0 [],
      lazy = False, embed = False\<rparr>"

definition fresh_backend :: state where
  "fresh_backend = init_state True True (\<lambda>i. blank_doc) 0 0"

text \<open>
  Modelled from the spec: a cooperative instance of the external document capability, used
  for concrete inputs. The fetch returns the attributes the instance holds, \<^verbatim>\<open>save\<close>
  assigns a primary key (spec, section 6: "persist and assign a primary key if absent"),
  the embedded serialization returns the attribute mapping, a copy of a document is the
  document itself, and no custom constructor is installed.
\<close>

definition plain_ext :: ext where
  "plain_ext =
     \<lparr>eager_attributes = (\<lambda>i st. (Inr (attributes (docs st i)), st)),
      doc_save =
        (\<lambda>i st. (Inr (), st\<lparr>docs := (docs st)(i := (docs st i)\<lparr>pk := VInt (int i)\<rparr>)\<rparr>)),
      doc_serialize = (\<lambda>i st. (Inr (attributes (docs st i)), st)),
      doc_deepcopy = (\<lambda>i st. (Inr (VDoc i), st)),
      call_constructor = (\<lambda>f attrs lz st. (Inl (OtherError ''constructor''), st)),
      doc_hashable = True\<rparr>"

text \<open>
  The reading of the encoders that claim C2 states, written from the claim's words: only the
  first pair whose predicate matches is applied.
\<close>

fun apply_first_encoder :: "((val \<Rightarrow> bool) \<times> (val \<Rightarrow> val)) list \<Rightarrow> val \<Rightarrow> val" where
  "apply_first_encoder [] obj = obj"
| "apply_first_encoder ((matcher, encoder) # rest) obj =
     (if matcher obj then encoder obj else apply_first_encoder rest obj)"

definition is_int :: "val \<Rightarrow> bool" where
  "is_int v = (case v of VInt n \<Rightarrow> True | _ \<Rightarrow> False)"

definition add_one :: "val \<Rightarrow> val" where
  "add_one v = (case v of VInt n \<Rightarrow> VInt (n + 1) | _ \<Rightarrow> v)"

definition double_int :: "val \<Rightarrow> val" where
  "double_int v = (case v of VInt n \<Rightarrow> VInt (2 * n) | _ \<Rightarrow> v)"

definition book_params :: params where
  "book_params = empty_params\<lparr>collection := Some ''book''\<rparr>"

definition unsaved_book :: doc where
  "unsaved_book =
     \<lparr>doc_cls = cls_Book, pk = VNone, attributes = VDict 1 [(KStr ''title'', VStr ''Emma'')],
      lazy_attributes = VDict 1 [(KStr ''title'', VStr ''Emma'')], lazy = False, embed = False\<rparr>"

definition saved_book :: doc where
  "saved_book = unsaved_book\<lparr>pk := VInt 7\<rparr>"

definition library :: "bool \<Rightarrow> state" where
  "library allow =
     \<lparr>classes = [cls_Book \<mapsto> book_params], collections = [''book'' \<mapsto> cls_Book],
      autoload_embedded = True, allow_documents_in_query = allow,
      docs = (\<lambda>i. blank_doc)(3 := unsaved_book, 7 := saved_book), next_doc = 10, next_addr = 100\<rparr>"



fun plain :: "val \<Rightarrow> bool" where
  "plain (VDict a kvs) =
     (\<not> dict_has kvs (KStr ''__collection__'') \<and> (\<forall>kv \<in> set kvs. plain (snd kv)))"
| "plain (VList a vs) = (\<forall>v \<in> set vs. plain v)"
| "plain (VTuple vs) = (\<forall>v \<in> set vs. plain v)"
| "plain v = True"



text \<open>
  The addresses of the containers of a value, and values that hold no document.
\<close>

fun addrs_of :: "val \<Rightarrow> nat set" where
  "addrs_of (VDict a kvs) = insert a (\<Union>kv \<in> set kvs. addrs_of (snd kv))"
| "addrs_of (VList a vs) = insert a (\<Union>v \<in> set vs. addrs_of v)"
| "addrs_of (VTuple vs) = (\<Union>v \<in> set vs. addrs_of v)"
| "addrs_of v = {}"

definition items_addrs :: "(pkey \<times> val) list \<Rightarrow> nat set" where
  "items_addrs kvs = (\<Union>kv \<in> set kvs. addrs_of (snd kv))"


text \<open>
  A class whose \<^verbatim>\<open>Meta\<close> declares \<^verbatim>\<open>dbref_includes = ['author.name', 'tags']\<close>, and a backend
  with four of its instances.
\<close>

definition review_params :: params where
  "review_params =
     \<lparr>collection = Some ''review'', constructor = None,
      dbref_includes = Some [''author.name'', ''tags''], extra = []\<rparr>"

definition cls_Review :: pyclass where
  "cls_Review =
     \<lparr>cls_id = 2, cls_name = ''Review'', is_document = True,
      meta = Some (review_params\<lparr>collection := None\<rparr>), pk_name = ''pk''\<rparr>"

definition review :: "int \<Rightarrow> (pkey \<times> val) list \<Rightarrow> doc" where
  "review n attrs =
     \<lparr>doc_cls = cls_Review, pk = VInt n, attributes = VDict 1 attrs,
      lazy_attributes = VDict 1 attrs, lazy = False, embed = False\<rparr>"

definition reviews :: state where
  "reviews =
     \<lparr>classes = [cls_Review \<mapsto> review_params], collections = [''review'' \<mapsto> cls_Review],
      autoload_embedded = True, allow_documents_in_query = True,
      docs = (\<lambda>i. blank_doc)
        (4 := review 4 [(KStr ''author'', VNone), (KStr ''tags'', VList 3 [VStr ''novel''])],
         5 := review 5 [(KStr ''author'', VDict 2 [(KStr ''name'', VStr ''Jane'')]),
                        (KStr ''tags'', VList 3 [VStr ''novel''])],
         6 := review 6 [(KStr ''author'', VDict 2 [])],
         8 := (review 8 [(KStr ''tags'', VList 3 [VStr ''novel''])])\<lparr>lazy := True\<rparr>),
      next_doc = 10, next_addr = 100\<rparr>"













section \<open>The registry and its reverse index\<close>

lemma register_resolves:
  assumes "registry_resolves st"
  shows "registry_resolves (snd (register cls ps st))"
proof (cases "collection_name_for cls (case ps of None \<Rightarrow> empty_params | Some p \<Rightarrow> p)")
  case (Inl e)
  with assms show ?thesis by (simp add: register_def)
next
  case (Inr c)
  show ?thesis
    unfolding registry_resolves_def
  proof (intro allI impI)
    fix t p
    assume h: "classes (snd (register cls ps st)) t = Some p"
    show "\<exists>c'. collection p = Some c' \<and> collections (snd (register cls ps st)) c' = Some t"
    proof (cases "t = cls")
      case True
      with h Inr show ?thesis by (auto simp: register_def)
    next
      case False
      with h Inr have old: "classes st t = Some p" and ne: "collection p \<noteq> Some c"
        by (auto simp: register_def delete_colliding_def split: option.splits if_splits)
      from assms old obtain c' where c': "collection p = Some c'" "collections st c' = Some t"
        unfolding registry_resolves_def by blast
      with ne have "c' \<noteq> c" by auto
      with c' Inr show ?thesis by (simp add: register_def)
    qed
  qed
qed

lemma reg_step_resolves: "registry_resolves st \<Longrightarrow> registry_resolves (reg_step c st)"
  by (cases c) (simp_all add: autoregister_def register_resolves)

lemma reg_run_resolves: "registry_resolves st \<Longrightarrow> registry_resolves (reg_run cs st)"
  by (induction cs arbitrary: st) (simp_all add: reg_step_resolves)

lemma init_resolves: "registry_resolves (init_state autoload allow ds nd na)"
  by (simp add: registry_resolves_def init_state_def)

text \<open>
  Claim C3, as amended. After any sequence of \<^verbatim>\<open>register\<close> and \<^verbatim>\<open>autoregister\<close> calls on a
  new backend, every registered class has a resolved collection name and the reverse index
  \<^verbatim>\<open>collections\<close> maps that name back to the class. (The other direction is not part of the
  statement: \<^verbatim>\<open>register\<close> never deletes from \<^verbatim>\<open>collections\<close>.)
\<close>

theorem registry_resolves_after_calls:
  "registry_resolves (reg_run calls (init_state autoload allow ds nd na))"
  by (rule reg_run_resolves) (rule init_resolves)

theorem registry_resolves_after_calls_witness:
  "classes (reg_run [Register cls_Book None, Autoregister cls_Author] fresh_backend) cls_Book
     = Some (empty_params\<lparr>collection := Some ''book''\<rparr>)
   \<and> collections (reg_run [Register cls_Book None, Autoregister cls_Author] fresh_backend)
       ''book'' = Some cls_Book"
proof -
  have r: "registry_resolves (reg_run [Register cls_Book None, Autoregister cls_Author] fresh_backend)"
    unfolding fresh_backend_def by (rule registry_resolves_after_calls)
  have l: "lower ''Book'' = ''book''" "lower ''Author'' = ''author''"
    by code_simp+
  have c: "classes (reg_run [Register cls_Book None, Autoregister cls_Author] fresh_backend) cls_Book
     = Some (empty_params\<lparr>collection := Some ''book''\<rparr>)"
    by (simp add: fresh_backend_def init_state_def register_def autoregister_def
        get_meta_attributes_def collection_name_for_def cls_Book_def cls_Author_def
        empty_params_def delete_colliding_def l Let_def)
  from r c show ?thesis
    unfolding registry_resolves_def by fastforce
qed

text \<open>
  Claim C3 as stated fails: after registering \<^verbatim>\<open>Author\<close> under \<^verbatim>\<open>"a"\<close> and then again under
  \<^verbatim>\<open>"b"\<close>, the reverse index still maps \<^verbatim>\<open>"a"\<close> to \<^verbatim>\<open>Author\<close>, whose resolved collection
  name is now \<^verbatim>\<open>"b"\<close>.
\<close>

theorem reverse_index_orphan_counterexample:
  "\<not> (registry_resolves
         (reg_run [Register cls_Author (in_collection ''a''),
                   Register cls_Author (in_collection ''b'')] fresh_backend)
       \<and> reverse_index_registered
         (reg_run [Register cls_Author (in_collection ''a''),
                   Register cls_Author (in_collection ''b'')] fresh_backend))"
proof -
  let ?s = "reg_run [Register cls_Author (in_collection ''a''),
                     Register cls_Author (in_collection ''b'')] fresh_backend"
  have a: "collections ?s ''a'' = Some cls_Author"
    by (simp add: fresh_backend_def init_state_def register_def collection_name_for_def
        in_collection_def empty_params_def delete_colliding_def Let_def)
  have b: "classes ?s cls_Author = Some (empty_params\<lparr>collection := Some ''b''\<rparr>)"
    by (simp add: fresh_backend_def init_state_def register_def collection_name_for_def
        in_collection_def empty_params_def delete_colliding_def Let_def)
  have "\<not> reverse_index_registered ?s"
    unfolding reverse_index_registered_def using a b by fastforce
  then show ?thesis by simp
qed

section \<open>Encoders\<close>

lemma apply_encoders_fold:
  "apply_encoders es obj =
   fold (\<lambda>(matcher, encoder) v. if matcher v then encoder v else v) es obj"
  by (induction es arbitrary: obj) auto

text \<open>
  Claim C2, as amended. The loop over the encoders has no \<^verbatim>\<open>break\<close>: every pair is tested
  in order against the current value, which earlier matching pairs have already
  transformed, and every pair that matches is applied. The value that results is then
  serialized as a call without encoders would serialize it.
\<close>

theorem encoders_all_applied:
  "serialize x obj cks el (Some es) asv fq st =
   serialize x (fold (\<lambda>(matcher, encoder) v. if matcher v then encoder v else v) es obj)
     cks el None asv fq st"
  by (simp add: serialize_def apply_encoders_fold)

text \<open>
  Claim C2 as stated fails: with the encoders \<^verbatim>\<open>[(is_int, add_one), (is_int, double)]\<close> the
  value \<^verbatim>\<open>1\<close> is serialized to \<^verbatim>\<open>4\<close>; applying the first matching pair only gives \<^verbatim>\<open>2\<close>.
\<close>

theorem first_encoder_only_counterexample:
  "serialize plain_ext (VInt 1) False 0 (Some [(is_int, add_one), (is_int, double_int)])
       True False fresh_backend = (Inr (VInt 4), fresh_backend)
   \<and> serialize plain_ext (VInt 1) False 0 (Some [(is_int, add_one), (is_int, double_int)])
       True False fresh_backend
     \<noteq> serialize plain_ext
         (apply_first_encoder [(is_int, add_one), (is_int, double_int)] (VInt 1))
         False 0 None True False fresh_backend"
  by (simp add: serialize_def is_int_def add_one_def double_int_def)

section \<open>Serializing a document\<close>

lemma get_collection_registered:
  "classes st cls = Some p \<Longrightarrow> collection p = Some c \<Longrightarrow>
   get_collection_for_cls cls st = (Inr c, st)"
  by (simp add: get_collection_for_cls_def)

lemma library_collection:
  "get_collection_for_cls cls_Book (library allow) = (Inr ''book'', library allow)"
  by (rule get_collection_registered[where p = book_params])
     (simp_all add: library_def book_params_def)

lemma library_docs: "docs (library a) 7 = saved_book" "docs (library a) 3 = unsaved_book"
  by (simp_all add: library_def)

lemma library_collection_7: "get_collection_for_cls (doc_cls (docs (library a) 7)) (library a) = (Inr ''book'', library a)"
  by (simp add: library_docs saved_book_def unsaved_book_def library_collection)

lemma library_collection_3: "get_collection_for_cls (doc_cls (docs (library a) 3)) (library a) = (Inr ''book'', library a)"
  by (simp add: library_docs unsaved_book_def library_collection)

text \<open>
  The gate of lines 185-186 for a document that is not lazy and not embedded, serialized
  with \<^verbatim>\<open>embed_level=0\<close> and \<^verbatim>\<open>for_query=True\<close>: \<^verbatim>\<open>ValueError\<close> when documents are not allowed
  in queries, the stub otherwise. The stub is returned when every reference-include path
  resolves or misses a key of a mapping.
\<close>

lemma query_gate:
  assumes "get_collection_for_cls (doc_cls (docs st i)) st = (Inr c, st1)"
    and "\<not> embed (docs st1 i)"
    and "autosave_step x autosave i st1 = (Inr (), st2)"
    and "\<not> lazy (docs st2 i)"
  shows "(\<not> allow_documents_in_query st2 \<longrightarrow>
            serialize x (VDoc i) cks 0 None autosave True st = (Inl ValueError, st2))
       \<and> (allow_documents_in_query st2 \<longrightarrow>
            registered_collection st2 (doc_cls (docs st2 i)) = Inr c2 \<longrightarrow>
            includes_of (doc_cls (docs st2 i)) = [] \<longrightarrow>
            serialize x (VDoc i) cks 0 None autosave True st =
              (Inr (VDict (next_addr st2)
                      [(KStr ''pk'', pk (docs st2 i)), (KStr ''__collection__'', VStr c2)]),
               st2\<lparr>next_addr := Suc (next_addr st2)\<rparr>))
       \<and> (allow_documents_in_query st2 \<longrightarrow>
            registered_collection st2 (doc_cls (docs st2 i)) = Inr c2 \<longrightarrow>
            add_includes (docs st2) (VDoc i) (includes_of (doc_cls (docs st2 i)))
              [(KStr ''pk'', pk (docs st2 i)), (KStr ''__collection__'', VStr c2)] = Inr out \<longrightarrow>
            serialize x (VDoc i) cks 0 None autosave True st =
              (Inr (VDict (next_addr st2) out), st2\<lparr>next_addr := Suc (next_addr st2)\<rparr>))"
  using assms
  by (simp add: serialize_def serialize_reference_def eager_stub_def alloc_def)

lemma query_gate_example:
  "serialize plain_ext (VDoc 7) False 0 None True True (library False)
     = (Inl ValueError, library False)
   \<and> serialize plain_ext (VDoc 7) False 0 None True True (library True)
     = (Inr (VDict 100 [(KStr ''pk'', VInt 7), (KStr ''__collection__'', VStr ''book'')]),
        (library True)\<lparr>next_addr := 101\<rparr>)"
proof -
  have sv: "autosave_step plain_ext True 7 (library a) = (Inr (), library a)" for a
    by (simp add: autosave_step_def library_docs saved_book_def unsaved_book_def)
  have e: "\<not> embed (docs (library a) 7)" "\<not> lazy (docs (library a) 7)" for a
    by (simp_all add: library_docs saved_book_def unsaved_book_def)
  have rc: "registered_collection (library True) (doc_cls (docs (library True) 7)) = Inr ''book''"
    by (simp add: registered_collection_def library_docs saved_book_def unsaved_book_def library_def
        book_params_def)
  have inc: "includes_of (doc_cls (docs (library True) 7)) = []"
    by (simp add: includes_of_def library_docs saved_book_def unsaved_book_def cls_Book_def
        empty_params_def)
  have al: "\<not> allow_documents_in_query (library False)" "allow_documents_in_query (library True)"
    by (simp_all add: library_def)
  have p: "pk (docs (library True) 7) = VInt 7" "next_addr (library True) = 100"
    by (simp_all add: library_docs saved_book_def library_def)
  from query_gate[OF library_collection_7 e(1) sv e(2), of False False]
       query_gate[OF library_collection_7 e(1) sv e(2), of True False "''book''"] al rc inc p
  show ?thesis by simp
qed

lemma add_includes_succeeds:
  "\<forall>k \<in> set ks. get_value ds obj k = Inl KeyError \<or> (\<exists>v. get_value ds obj k = Inr v) \<Longrightarrow>
   \<exists>out. add_includes ds obj ks out0 = Inr out"
  by (induction ks arbitrary: out0) auto

lemma query_gate_with_includes:
  assumes "get_collection_for_cls (doc_cls (docs st i)) st = (Inr c, st1)"
    and "\<not> embed (docs st1 i)"
    and "autosave_step x autosave i st1 = (Inr (), st2)"
    and "\<not> lazy (docs st2 i)"
    and "allow_documents_in_query st2 \<or> \<not> for_query"
    and "registered_collection st2 (doc_cls (docs st2 i)) = Inr c2"
    and "\<forall>k \<in> set (includes_of (doc_cls (docs st2 i))).
           get_value (docs st2) (VDoc i) k = Inl KeyError
           \<or> (\<exists>v. get_value (docs st2) (VDoc i) k = Inr v)"
  shows "\<exists>out. add_includes (docs st2) (VDoc i) (includes_of (doc_cls (docs st2 i)))
                 [(KStr ''pk'', pk (docs st2 i)), (KStr ''__collection__'', VStr c2)] = Inr out
             \<and> serialize x (VDoc i) cks 0 None autosave for_query st
                 = (Inr (VDict (next_addr st2) out), st2\<lparr>next_addr := Suc (next_addr st2)\<rparr>)"
proof -
  from add_includes_succeeds[OF assms(7)] obtain out where
    "add_includes (docs st2) (VDoc i) (includes_of (doc_cls (docs st2 i)))
       [(KStr ''pk'', pk (docs st2 i)), (KStr ''__collection__'', VStr c2)] = Inr out"
    by blast
  with assms(1-6) show ?thesis
    by (auto simp: serialize_def serialize_reference_def eager_stub_def alloc_def)
qed



lemma seq_error_propagates:
  "serialize_seq x cks asv fq el pre st = (Inr outs, st1) \<Longrightarrow>
   serialize_rec x cks asv fq el v st1 = (Inl e, st2) \<Longrightarrow>
   serialize_seq x cks asv fq el (pre @ v # post) st = (Inl e, st2)"
  by (induction pre arbitrary: st outs) (auto split: prod.splits sum.splits)

lemma items_error_propagates:
  "serialize_items x cks asv fq el pre acc st = (Inr outs, st1) \<Longrightarrow>
   serialize_rec x cks asv fq el v st1 = (Inl e, st2) \<Longrightarrow>
   serialize_items x cks asv fq el (pre @ (k, v) # post) acc st = (Inl e, st2)"
  by (induction pre arbitrary: st acc) (auto split: prod.splits sum.splits)




text \<open>
  Claim C10. A document with a null primary key, not embedded and not lazy, is serialized
  with \<^verbatim>\<open>autosave=True\<close> and \<^verbatim>\<open>for_query=True\<close> while documents are not allowed in queries:
  \<^verbatim>\<open>obj.save\<close> runs first, and the \<^verbatim>\<open>ValueError\<close> is raised from the state that the save has
  left. In the witness the instance has no primary key before the call and has one after
  the call has failed.
\<close>

theorem autosave_precedes_query_error:
  assumes "get_collection_for_cls (doc_cls (docs st i)) st = (Inr c, st1)"
    and "el \<le> 0"
    and "\<not> embed (docs st1 i)"
    and "pk (docs st1 i) = VNone"
    and "doc_save x i st1 = (Inr (), st2)"
    and "\<not> lazy (docs st2 i)"
    and "\<not> allow_documents_in_query st2"
  shows "serialize x (VDoc i) cks el None True True st = (Inl ValueError, st2)"
  using assms
  by (simp add: serialize_def serialize_reference_def autosave_step_def eager_stub_def)

theorem autosave_precedes_query_error_witness:
  "serialize plain_ext (VDoc 3) False 0 None True True (library False)
     = (Inl ValueError,
        (library False)\<lparr>docs := (docs (library False))(3 := unsaved_book\<lparr>pk := VInt 3\<rparr>)\<rparr>)
   \<and> pk (docs (library False) 3) = VNone
   \<and> pk (docs (snd (serialize plain_ext (VDoc 3) False 0 None True True (library False))) 3)
       = VInt 3"
proof -
  let ?st2 = "(library False)\<lparr>docs := (docs (library False))(3 := unsaved_book\<lparr>pk := VInt 3\<rparr>)\<rparr>"
  have s: "doc_save plain_ext 3 (library False) = (Inr (), ?st2)"
    by (simp add: plain_ext_def library_docs)
  have h: "\<not> embed (docs (library False) 3)" "pk (docs (library False) 3) = VNone"
    "\<not> lazy (docs ?st2 3)" "\<not> allow_documents_in_query ?st2"
    by (simp_all add: library_docs unsaved_book_def library_def)
  have e: "serialize plain_ext (VDoc 3) False 0 None True True (library False) = (Inl ValueError, ?st2)"
    by (rule autosave_precedes_query_error[OF library_collection_3 _ h(1) h(2) s h(3) h(4)]) simp
  show ?thesis
    by (simp add: e h)
qed

section \<open>Deserializing a mapping\<close>












lemma reference_shape_next_addr [simp]:
  "reference_shape x (st\<lparr>next_addr := n\<rparr>) kvs = reference_shape x st kvs"
  by (auto simp: reference_shape_def split: option.splits val.splits)









section \<open>Reference-include fields\<close>


lemmas review_eval =
  serialize_def reviews_def review_def cls_Review_def review_params_def get_value_def
  dict_get_def get_collection_for_cls_def registered_collection_def includes_of_def
  serialize_reference_def autosave_step_def eager_stub_def alloc_def replace_dots_def Let_def



text \<open>
  Claim C6, the failing input. The class declares the path \<^verbatim>\<open>author.name\<close> and the instance
  has \<^verbatim>\<open>author = None\<close>: the path is absent on the instance, and \<^verbatim>\<open>None['name']\<close> raises
  \<^verbatim>\<open>TypeError\<close>, which \<^verbatim>\<open>except KeyError\<close> does not catch, so \<^verbatim>\<open>serialize\<close> raises instead of
  omitting the key. (\<open>includes_present_and_absent\<close> shows the two cases that work: a path
  that resolves, and a path whose last key is missing from a mapping.)
\<close>

theorem include_through_none_raises:
  "serialize plain_ext (VDoc 4) False 0 None True False reviews
     = (Inl TypeError, reviews\<lparr>next_addr := 101\<rparr>)"
  by (simp add: review_eval)

text \<open>
  Claim C4, the failing input. The call of claim C6's failing input with \<^verbatim>\<open>for_query=True\<close>,
  on a backend that allows documents in queries: the instance is not lazy, its \<^verbatim>\<open>embed\<close> flag
  is false and its class is registered, so the claim says that the call succeeds and
  returns the stub. The path \<^verbatim>\<open>author.name\<close> runs through \<^verbatim>\<open>author = None\<close> and the call raises
  \<^verbatim>\<open>TypeError\<close>: the same defect as in claim C6.
\<close>

theorem query_allowed_include_raises:
  "allow_documents_in_query reviews
   \<and> \<not> lazy (docs reviews 4) \<and> \<not> embed (docs reviews 4)
   \<and> serialize plain_ext (VDoc 4) False 0 None True True reviews
     = (Inl TypeError, reviews\<lparr>next_addr := 101\<rparr>)"
  by (simp add: review_eval)


section \<open>Copies and sharing\<close>

lemma items_addrs_simps [simp]:
  "items_addrs [] = {}"
  "items_addrs ((k, v) # kvs) = addrs_of v \<union> items_addrs kvs"
  by (simp_all add: items_addrs_def)








section \<open>The round trip of a reference\<close>















end
